theory Spec2Isabelle
  imports Complex_Main "HOL-Library.Multiset"
begin

section \<open>Gaze estimation engine: calibration and angle-to-screen mapping\<close>

text \<open>
  The development embeds \<^verbatim>\<open>src/backend/calibration_agents.py\<close> (the interpolation
  agent) and \<^verbatim>\<open>src/gaze_estimation_engine.py\<close> (the orchestrating engine; the methods of
  \<^verbatim>\<open>src/backend/vision_tracking_engine.py\<close> have the same bodies, line for line).

  Conventions of the embedding:
  \<^item> a method takes the object \<open>self\<close> and returns a pair: the outcome and the object
    after the call. The outcome is a sum: \<open>Inl\<close> an exception that was raised, \<open>Inr\<close> the
    value that was returned.
  \<^item> a Python \<^verbatim>\<open>float\<close> is a real number, and every floating-point operation is the
    operation on the reals followed by a rounding function \<open>rnd\<close>, a parameter of the
    arithmetic. \<open>exact\<close> (no rounding) is arithmetic on the reals; \<open>binary64\<close> is the
    rounding of IEEE 754 doubles, to nearest with ties to even. Overflow, underflow to
    subnormal numbers, infinities and NaN are outside the model.
\<close>

subsection \<open>Exceptions\<close>

text \<open>
  The exceptions the modelled code can meet. \<open>PredictionError\<close> stands for whatever the
  gaze predictor raises on a frame it cannot handle; the predictor is an external
  collaborator and a parameter of the model.
\<close>

datatype error = ZeroDivisionError | TypeError | PredictionError

subsection \<open>Floating-point arithmetic\<close>

type_synonym rounding = "real \<Rightarrow> real"

definition exact :: rounding where
  "exact x = x"

text \<open>
  Rounding to the nearest integer, ties to the even one, and rounding to the nearest
  double: a nonzero \<open>x\<close> with \<open>2\<^sup>e \<le> \<bar>x\<bar> < 2\<^sup>e\<^sup>+\<^sup>1\<close> is scaled to a significand of 53 bits,
  rounded to an integer and scaled back. The exponent is not bounded.
\<close>

definition round_half_even :: "real \<Rightarrow> int" where
  "round_half_even y =
     (let n = \<lfloor>y\<rfloor>; r = y - of_int n
      in if r < 1 / 2 then n else if 1 / 2 < r then n + 1 else if even n then n else n + 1)"

definition binary64 :: rounding where
  "binary64 x =
     (if x = 0 then 0
      else let e = \<lfloor>log 2 \<bar>x\<bar>\<rfloor>
           in of_int (round_half_even (x * 2 powr (52 - of_int e))) * 2 powr (of_int e - 52))"

text \<open>Python's \<^verbatim>\<open>a / b\<close> on numbers: a zero divisor raises.\<close>

definition py_truediv :: "rounding \<Rightarrow> real \<Rightarrow> real \<Rightarrow> error + real" where
  "py_truediv rnd a b = (if b = 0 then Inl ZeroDivisionError else Inr (rnd (a / b)))"

text \<open>
  Python's \<^verbatim>\<open>sum\<close>: the accumulator starts at the integer 0 and the items are added from
  left to right. Adding the first item to 0 is exact; every later addition rounds.
  The sum of no items is 0. This is how CPython adds floats up to version 3.11; from 3.12
  on it also accumulates the rounding errors of the additions and adds them at the end.
  The two ways agree in exact arithmetic, and under rounding on lists of at most two
  items.
\<close>

fun py_sum :: "rounding \<Rightarrow> real list \<Rightarrow> real" where
  "py_sum rnd [] = 0"
| "py_sum rnd (x # xs) = foldl (\<lambda>acc v. rnd (acc + v)) x xs"

text \<open>A list comprehension whose element expression may raise: the first exception wins.\<close>

fun comprehension :: "('a \<Rightarrow> error + 'b) \<Rightarrow> 'a list \<Rightarrow> error + 'b list" where
  "comprehension f [] = Inr []"
| "comprehension f (x # xs) =
     (case f x of
        Inl e \<Rightarrow> Inl e
      | Inr y \<Rightarrow> (case comprehension f xs of Inl e \<Rightarrow> Inl e | Inr ys \<Rightarrow> Inr (y # ys)))"

subsection \<open>CalibrationMap\<close>

text \<open>
  Modelled from the spec: the class \<^verbatim>\<open>CalibrationMap\<close> of
  \<^verbatim>\<open>src/backend/calibration_map.py\<close> is imported by the agent but its file is not part of
  the sources. The spec (sections 3 and 4.1) describes it as an ordered collection of
  six-field samples exposed as parallel views of the same length and order, created empty,
  and changed only by \<^verbatim>\<open>add_calibration_point\<close>, which appends to every view in lock-step.
  The names of four views are those the agent reads.
\<close>

record CalibrationMap =
  monitor_x_values :: "real list"
  monitor_y_values :: "real list"
  head_x_values :: "real list"
  head_y_values :: "real list"
  theta_values :: "real list"
  phi_values :: "real list"

definition CalibrationMap_init :: CalibrationMap where
  "CalibrationMap_init =
     \<lparr>monitor_x_values = [], monitor_y_values = [], head_x_values = [],
      head_y_values = [], theta_values = [], phi_values = []\<rparr>"

definition add_calibration_point ::
  "CalibrationMap \<Rightarrow> real \<Rightarrow> real \<Rightarrow> real \<Rightarrow> real \<Rightarrow> real \<Rightarrow> real \<Rightarrow> CalibrationMap" where
  "add_calibration_point m monitor_x monitor_y head_x head_y theta phi =
     m\<lparr>monitor_x_values := monitor_x_values m @ [monitor_x],
       monitor_y_values := monitor_y_values m @ [monitor_y],
       head_x_values := head_x_values m @ [head_x],
       head_y_values := head_y_values m @ [head_y],
       theta_values := theta_values m @ [theta],
       phi_values := phi_values m @ [phi]\<rparr>"

text \<open>
  Modelled from the spec (section 3): a sample is one record of six fields, index \<open>i\<close> of
  every view refers to the same sample, and all views have the same length. \<open>samples\<close>
  lists the samples of a map in insertion order; \<open>aligned\<close> says that the views are in
  lock-step.
\<close>

definition samples :: "CalibrationMap \<Rightarrow> (real \<times> real \<times> real \<times> real \<times> real \<times> real) list" where
  "samples m =
     zip (monitor_x_values m) (zip (monitor_y_values m) (zip (head_x_values m)
       (zip (head_y_values m) (zip (theta_values m) (phi_values m)))))"

definition aligned :: "CalibrationMap \<Rightarrow> bool" where
  "aligned m \<longleftrightarrow>
     length (monitor_y_values m) = length (monitor_x_values m) \<and>
     length (head_x_values m) = length (monitor_x_values m) \<and>
     length (head_y_values m) = length (monitor_x_values m) \<and>
     length (theta_values m) = length (monitor_x_values m) \<and>
     length (phi_values m) = length (monitor_x_values m)"

subsection \<open>InterpolationAgent\<close>

record InterpolationAgent =
  calibration_map :: CalibrationMap

text \<open>\<^verbatim>\<open>__init__\<close> and \<^verbatim>\<open>initialize_cal_map\<close>: a fresh, empty map.\<close>

definition InterpolationAgent_init :: InterpolationAgent where
  "InterpolationAgent_init = \<lparr>calibration_map = CalibrationMap_init\<rparr>"

definition calibration_step ::
  "InterpolationAgent \<Rightarrow> real \<Rightarrow> real \<Rightarrow> real \<Rightarrow> real \<Rightarrow> real \<Rightarrow> real
     \<Rightarrow> (error + unit) \<times> InterpolationAgent" where
  "calibration_step self monitor_x monitor_y head_x head_y theta phi =
     (Inr (),
      self\<lparr>calibration_map :=
        add_calibration_point (calibration_map self) monitor_x monitor_y head_x head_y theta phi\<rparr>)"

text \<open>
  \<^verbatim>\<open>_interpolate\<close>. The parameter \<open>position\<close> is accepted and not used. The two list
  comprehensions, the generator under \<^verbatim>\<open>sum\<close> (with \<^verbatim>\<open>zip\<close>, which stops at the shorter
  list) and the final division are written in the order of the source. No statement
  assigns to \<open>self\<close> or to the lists, so the agent is returned as it came.
  \<^verbatim>\<open>math.sqrt\<close> raises on a negative argument only, and a square rounded by \<open>exact\<close> or
  \<open>binary64\<close> is not negative.
\<close>

definition interpolate ::
  "rounding \<Rightarrow> InterpolationAgent \<Rightarrow> real \<Rightarrow> real \<Rightarrow> real list \<Rightarrow> real list
     \<Rightarrow> (error + real) \<times> InterpolationAgent" where
  "interpolate rnd self position angle calibration_coordinates calibration_angles =
     (let epsilon = rnd (1 / 10 ^ 6);
          distances =
            map (\<lambda>calib_angle. rnd (sqrt (rnd ((rnd (angle - calib_angle))\<^sup>2))))
              calibration_angles
      in case comprehension (\<lambda>distance. py_truediv rnd 1 (rnd (distance + epsilon))) distances of
           Inl e \<Rightarrow> (Inl e, self)
         | Inr weights \<Rightarrow>
             (let numerator =
                    py_sum rnd (map (\<lambda>(w, coord). rnd (w * coord))
                                  (zip weights calibration_coordinates))
              in (py_truediv rnd numerator (py_sum rnd weights), self)))"

text \<open>
  The weight that \<^verbatim>\<open>_interpolate\<close> computes for one calibration angle, as one expression:
  the element of \<open>distances\<close> put into the element of \<open>weights\<close>.
\<close>

definition code_weight :: "rounding \<Rightarrow> real \<Rightarrow> real \<Rightarrow> real" where
  "code_weight rnd angle calib_angle =
     rnd (1 / rnd (rnd (sqrt (rnd ((rnd (angle - calib_angle))\<^sup>2))) + rnd (1 / 10 ^ 6)))"

text \<open>
  The list \<^verbatim>\<open>weights\<close> of \<^verbatim>\<open>_interpolate\<close>, the items \<^verbatim>\<open>w * coord\<close> of the generator that
  it hands to \<^verbatim>\<open>sum\<close> for the numerator, and its last line, the division of the one sum
  by the other.
\<close>

definition weights :: "rounding \<Rightarrow> real \<Rightarrow> real list \<Rightarrow> real list" where
  "weights rnd angle calibration_angles = map (code_weight rnd angle) calibration_angles"

definition weighted_coordinates ::
  "rounding \<Rightarrow> real \<Rightarrow> real list \<Rightarrow> real list \<Rightarrow> real list" where
  "weighted_coordinates rnd angle calibration_coordinates calibration_angles =
     map (\<lambda>(w, coord). rnd (w * coord))
       (zip (weights rnd angle calibration_angles) calibration_coordinates)"

definition quotient_of_sums :: "rounding \<Rightarrow> real list \<Rightarrow> real list \<Rightarrow> error + real" where
  "quotient_of_sums rnd products ws = py_truediv rnd (py_sum rnd products) (py_sum rnd ws)"

definition calculate_point_of_regard ::
  "rounding \<Rightarrow> InterpolationAgent \<Rightarrow> real \<Rightarrow> real \<Rightarrow> real \<Rightarrow> real
     \<Rightarrow> (error + real \<times> real) \<times> InterpolationAgent" where
  "calculate_point_of_regard rnd self head_x head_y theta phi =
     (case interpolate rnd self head_x theta
             (monitor_x_values (calibration_map self)) (theta_values (calibration_map self)) of
        (Inl e, self1) \<Rightarrow> (Inl e, self1)
      | (Inr x_screen, self1) \<Rightarrow>
          (case interpolate rnd self1 head_y phi
                  (monitor_y_values (calibration_map self1)) (phi_values (calibration_map self1)) of
             (Inl e, self2) \<Rightarrow> (Inl e, self2)
           | (Inr y_screen, self2) \<Rightarrow> (Inr (x_screen, y_screen), self2)))"

subsection \<open>Calling the agent from the engine\<close>

text \<open>
  The engine holds \<^verbatim>\<open>self.cal_agent\<close>, some object of a subclass of
  \<^verbatim>\<open>CalibrationAgent\<close>, and calls its methods with positional arguments. The model of
  such an object is its state together with its class: the two methods the engine calls,
  each taking the state and the list of the positional arguments of the call.
\<close>

record 'ag CalibrationAgent =
  calibration_step_method :: "'ag \<Rightarrow> real list \<Rightarrow> (error + unit) \<times> 'ag"
  calculate_point_of_regard_method :: "'ag \<Rightarrow> real list \<Rightarrow> (error + real \<times> real) \<times> 'ag"

text \<open>
  Binding the positional arguments of a call to the parameters of
  \<^verbatim>\<open>InterpolationAgent.calibration_step\<close> (six after \<open>self\<close>) and of
  \<^verbatim>\<open>InterpolationAgent.calculate_point_of_regard\<close> (four after \<open>self\<close>). No parameter
  has a default, so Python raises \<^verbatim>\<open>TypeError\<close> for any other number of arguments,
  before the body runs.
\<close>

fun call_calibration_step ::
  "InterpolationAgent \<Rightarrow> real list \<Rightarrow> (error + unit) \<times> InterpolationAgent" where
  "call_calibration_step self [monitor_x, monitor_y, head_x, head_y, theta, phi] =
     calibration_step self monitor_x monitor_y head_x head_y theta phi"
| "call_calibration_step self args = (Inl TypeError, self)"

fun call_calculate_point_of_regard ::
  "rounding \<Rightarrow> InterpolationAgent \<Rightarrow> real list
     \<Rightarrow> (error + real \<times> real) \<times> InterpolationAgent" where
  "call_calculate_point_of_regard rnd self [head_x, head_y, theta, phi] =
     calculate_point_of_regard rnd self head_x head_y theta phi"
| "call_calculate_point_of_regard rnd self args = (Inl TypeError, self)"

definition InterpolationAgent_class :: "rounding \<Rightarrow> InterpolationAgent CalibrationAgent" where
  "InterpolationAgent_class rnd =
     \<lparr>calibration_step_method = call_calibration_step,
      calculate_point_of_regard_method = call_calculate_point_of_regard rnd\<rparr>"

subsection \<open>GazeEstimationEngine\<close>

text \<open>
  The engine object: the predictor \<^verbatim>\<open>gaze_net\<close> (its method
  \<^verbatim>\<open>predict_gaze_vector\<close>, a parameter of the model, returning head position and gaze
  angles or raising), and the agent. The profile store \<^verbatim>\<open>cds\<close> plays no part in the
  methods modelled here. What a method prints is returned as a third component.
\<close>

record ('img, 'ag) GazeEstimationEngine =
  gaze_net :: "'img \<Rightarrow> error + real \<times> real \<times> real \<times> real"
  cal_agent_class :: "'ag CalibrationAgent"
  cal_agent :: 'ag

datatype 'img printed =
  Calibration_step_failed "real \<times> real \<times> 'img" error
| Calibration_profile_is_empty

definition run_single_calibration_step ::
  "('img, 'ag) GazeEstimationEngine \<Rightarrow> real \<Rightarrow> real \<Rightarrow> 'img
     \<Rightarrow> (error + unit) \<times> ('img, 'ag) GazeEstimationEngine" where
  "run_single_calibration_step self x y frame =
     (case gaze_net self frame of
        Inl e \<Rightarrow> (Inl e, self)
      | Inr (head_x, head_y, theta, phi) \<Rightarrow>
          (case calibration_step_method (cal_agent_class self) (cal_agent self) [x, y, theta, phi] of
             (outcome, agent') \<Rightarrow> (outcome, self\<lparr>cal_agent := agent'\<rparr>)))"

text \<open>
  The loop of \<^verbatim>\<open>run_calibration_steps\<close>: \<^verbatim>\<open>except Exception\<close> catches every exception
  of a step, prints, and the loop goes on with the next element. An element is a triple
  of two screen coordinates and a frame, as the annotation of the parameter says.
\<close>

fun run_calibration_steps ::
  "('img, 'ag) GazeEstimationEngine \<Rightarrow> (real \<times> real \<times> 'img) list
     \<Rightarrow> (error + unit) \<times> ('img, 'ag) GazeEstimationEngine \<times> 'img printed list" where
  "run_calibration_steps self [] = (Inr (), self, [])"
| "run_calibration_steps self (calibration_point # rest) =
     (case run_single_calibration_step self
             (fst calibration_point) (fst (snd calibration_point)) (snd (snd calibration_point)) of
        (Inr u, self') \<Rightarrow> run_calibration_steps self' rest
      | (Inl e, self') \<Rightarrow>
          (case run_calibration_steps self' rest of
             (outcome, self'', out) \<Rightarrow>
               (outcome, self'', Calibration_step_failed calibration_point e # out)))"

text \<open>
  \<^verbatim>\<open>predict_gaze_position\<close>: the \<^verbatim>\<open>try\<close> has a handler for
  \<^verbatim>\<open>ZeroDivisionError\<close> only; any other exception of the agent leaves the method.
  The parameter \<^verbatim>\<open>image\<close> is written \<open>img\<close>.
\<close>

definition predict_gaze_position ::
  "('img, 'ag) GazeEstimationEngine \<Rightarrow> 'img
     \<Rightarrow> (error + real option \<times> real option) \<times> ('img, 'ag) GazeEstimationEngine
         \<times> 'img printed list" where
  "predict_gaze_position self img =
     (case gaze_net self img of
        Inl e \<Rightarrow> (Inl e, self, [])
      | Inr (head_x, head_y, theta, phi) \<Rightarrow>
          (case calculate_point_of_regard_method (cal_agent_class self) (cal_agent self)
                  [theta, phi] of
             (Inr (screen_x, screen_y), agent') \<Rightarrow>
               (Inr (Some screen_x, Some screen_y), self\<lparr>cal_agent := agent'\<rparr>, [])
           | (Inl e, agent') \<Rightarrow>
               (if e = ZeroDivisionError
                then (Inr (None, None), self\<lparr>cal_agent := agent'\<rparr>,
                      [Calibration_profile_is_empty])
                else (Inl e, self\<lparr>cal_agent := agent'\<rparr>, []))))"

subsection \<open>Concrete engines and agents\<close>

text \<open>
  A predictor for the examples: frames are numbered, frame 0 shows no face (the predictor
  raises), every other frame gives head position \<open>(0, 0)\<close> and the angles
  \<open>(0.1, 0.2)\<close>.
\<close>

definition example_predictor :: "nat \<Rightarrow> error + real \<times> real \<times> real \<times> real" where
  "example_predictor frame =
     (if frame = 0 then Inl PredictionError else Inr (0, 0, 1 / 10, 1 / 5))"

text \<open>An engine as it is after construction with a fresh interpolation agent.\<close>

definition uncalibrated_engine :: "(nat, InterpolationAgent) GazeEstimationEngine" where
  "uncalibrated_engine =
     \<lparr>gaze_net = example_predictor,
      cal_agent_class = InterpolationAgent_class exact,
      cal_agent = InterpolationAgent_init\<rparr>"

text \<open>
  An interpolation agent that holds the one sample (screen \<open>(100, 200)\<close>, head
  \<open>(0, 0)\<close>, angles \<open>(0.1, 0.2)\<close>), and an engine around it.
\<close>

definition one_sample_agent :: InterpolationAgent where
  "one_sample_agent =
     snd (calibration_step InterpolationAgent_init 100 200 0 0 (1 / 10) (1 / 5))"

definition one_sample_engine :: "(nat, InterpolationAgent) GazeEstimationEngine" where
  "one_sample_engine =
     \<lparr>gaze_net = example_predictor,
      cal_agent_class = InterpolationAgent_class exact,
      cal_agent = one_sample_agent\<rparr>"

text \<open>
  An agent without state whose \<^verbatim>\<open>calculate_point_of_regard\<close> raises the given exception
  whatever the arguments, and an engine around it.
\<close>

definition raising_agent :: "error \<Rightarrow> unit CalibrationAgent" where
  "raising_agent e =
     \<lparr>calibration_step_method = (\<lambda>self args. (Inl e, self)),
      calculate_point_of_regard_method = (\<lambda>self args. (Inl e, self))\<rparr>"

definition raising_engine :: "error \<Rightarrow> (nat, unit) GazeEstimationEngine" where
  "raising_engine e =
     \<lparr>gaze_net = example_predictor, cal_agent_class = raising_agent e, cal_agent = ()\<rparr>"


text \<open>An agent calibrated with the one sample: screen \<open>(500, 500)\<close> at the angles \<open>(0, 0)\<close>.\<close>

definition sample_500_agent :: InterpolationAgent where
  "sample_500_agent = snd (calibration_step InterpolationAgent_init 500 500 0 0 0 0)"

text \<open>
  Two agents calibrated with the same three samples, all at the angles \<open>(0, 0)\<close>, in
  opposite orders. The screen coordinates are the doubles \<open>2\<^sup>4\<^sup>0 + 2\<^sup>-\<^sup>1\<^sup>2\<close>,
  \<open>- (2\<^sup>-\<^sup>1\<^sup>2 - 2\<^sup>-\<^sup>6\<^sup>5)\<close> and \<open>2\<^sup>-\<^sup>1\<^sup>3 - 2\<^sup>-\<^sup>6\<^sup>6\<close>, in Python \<^verbatim>\<open>1099511627776.0002\<close>,
  \<^verbatim>\<open>-0.00024414062499999997\<close> and \<^verbatim>\<open>0.00012207031249999999\<close>.
\<close>

definition three_sample_agent :: InterpolationAgent where
  "three_sample_agent =
     snd (calibration_step
       (snd (calibration_step
         (snd (calibration_step InterpolationAgent_init
            (2 ^ 40 + 1 / 2 ^ 12) (2 ^ 40 + 1 / 2 ^ 12) 0 0 0 0))
         (- (1 / 2 ^ 12 - 1 / 2 ^ 65)) (- (1 / 2 ^ 12 - 1 / 2 ^ 65)) 0 0 0 0))
       (1 / 2 ^ 13 - 1 / 2 ^ 66) (1 / 2 ^ 13 - 1 / 2 ^ 66) 0 0 0 0)"

definition three_sample_agent_reversed :: InterpolationAgent where
  "three_sample_agent_reversed =
     snd (calibration_step
       (snd (calibration_step
         (snd (calibration_step InterpolationAgent_init
            (1 / 2 ^ 13 - 1 / 2 ^ 66) (1 / 2 ^ 13 - 1 / 2 ^ 66) 0 0 0 0))
         (- (1 / 2 ^ 12 - 1 / 2 ^ 65)) (- (1 / 2 ^ 12 - 1 / 2 ^ 65)) 0 0 0 0))
       (2 ^ 40 + 1 / 2 ^ 12) (2 ^ 40 + 1 / 2 ^ 12) 0 0 0 0)"

subsection \<open>The interpolation formula of the specification\<close>





section \<open>Properties\<close>

subsection \<open>Auxiliary facts\<close>

lemma interpolate_agent_unchanged:
  "snd (interpolate rnd self position angle cs as) = self"
  by (simp add: interpolate_def Let_def split: sum.split)

lemma interpolate_position_irrelevant:
  "interpolate rnd self p1 angle cs as = interpolate rnd self p2 angle cs as"
  by (simp add: interpolate_def)

lemma interpolate_no_angles:
  "interpolate rnd self position angle cs [] = (Inl ZeroDivisionError, self)"
  by (simp add: interpolate_def py_truediv_def)

lemma interpolate_returns_agent:
  "interpolate rnd self position angle cs as = (r, s) \<Longrightarrow> s = self"
  using interpolate_agent_unchanged [of rnd self position angle cs as] by simp

lemma call_calculate_point_of_regard_two_arguments:
  "call_calculate_point_of_regard rnd self [theta, phi] = (Inl TypeError, self)"
  by simp

lemma call_calibration_step_four_arguments:
  "call_calibration_step self [x, y, theta, phi] = (Inl TypeError, self)"
  by simp

text \<open>
  With an interpolation agent, each of the two calls the engine makes on its agent raises
  \<^verbatim>\<open>TypeError\<close>, whatever the calibration map holds: the engine passes four arguments to
  \<^verbatim>\<open>calibration_step\<close>, which has six parameters, and two to
  \<^verbatim>\<open>calculate_point_of_regard\<close>, which has four.
\<close>

lemma run_single_calibration_step_InterpolationAgent:
  assumes "cal_agent_class self = InterpolationAgent_class rnd"
    and "gaze_net self frame = Inr (head_x, head_y, theta, phi)"
  shows "run_single_calibration_step self x y frame = (Inl TypeError, self)"
  using assms by (simp add: run_single_calibration_step_def InterpolationAgent_class_def)

lemma predict_gaze_position_InterpolationAgent:
  assumes "cal_agent_class self = InterpolationAgent_class rnd"
    and "gaze_net self img = Inr (head_x, head_y, theta, phi)"
  shows "predict_gaze_position self img = (Inl TypeError, self, [])"
  using assms by (simp add: predict_gaze_position_def InterpolationAgent_class_def)

text \<open>
  The batch loop never raises, whatever the agent and the predictor do: every exception
  of a step is caught, and the loop goes through the whole list.
\<close>

lemma run_calibration_steps_returns:
  fixes self :: "('img, 'ag) GazeEstimationEngine"
  shows "fst (run_calibration_steps self calibration_data) = Inr ()"
proof (induction calibration_data arbitrary: self)
  case Nil
  show ?case by simp
next
  case (Cons calibration_point rest)
  have *: "r = Inr ()" if "run_calibration_steps s rest = (r, s', out)"
    for s :: "('img, 'ag) GazeEstimationEngine" and r s' out
    using Cons.IH [of s] that by simp
  show ?case
    by (auto split: prod.split sum.split dest: * simp: Cons.IH)
qed

text \<open>
  A batch in two parts is the first part followed by the second: the loop takes the
  elements in order, each from the engine its predecessors left, whether they failed or
  not.
\<close>

lemma run_calibration_steps_append:
  fixes self :: "('img, 'ag) GazeEstimationEngine"
  shows "run_calibration_steps self (xs @ ys) =
    (case run_calibration_steps self xs of
       (outcome, self', out) \<Rightarrow>
         (case run_calibration_steps self' ys of
            (outcome', self'', out') \<Rightarrow> (outcome', self'', out @ out')))"
  by (induction xs arbitrary: self) (auto split: prod.split sum.split)

subsection \<open>The interpolation on a non-empty list of angles\<close>

lemma comprehension_total:
  "(\<And>x. x \<in> set xs \<Longrightarrow> f x = Inr (g x)) \<Longrightarrow> comprehension f xs = Inr (map g xs)"
  by (induction xs) auto

lemma foldl_rnd_pos:
  fixes rnd :: rounding
  assumes pos: "\<And>x. 0 < x \<Longrightarrow> 0 < rnd x"
  shows "0 < acc \<Longrightarrow> (\<And>v. v \<in> set vs \<Longrightarrow> 0 < v)
    \<Longrightarrow> 0 < foldl (\<lambda>acc v. rnd (acc + v)) acc vs"
proof (induction vs arbitrary: acc)
  case Nil
  then show ?case by simp
next
  case (Cons v vs)
  have "0 < v" using Cons.prems(2) by simp
  then have "0 < rnd (acc + v)" using Cons.prems(1) by (intro pos) simp
  then show ?case using Cons by simp
qed

lemma py_sum_pos:
  fixes rnd :: rounding
  assumes pos: "\<And>x. 0 < x \<Longrightarrow> 0 < rnd x"
    and "ws \<noteq> []" and "\<And>w. w \<in> set ws \<Longrightarrow> 0 < w"
  shows "0 < py_sum rnd ws"
proof (cases ws)
  case Nil
  with assms show ?thesis by simp
next
  case (Cons w ws')
  have "0 < foldl (\<lambda>acc v. rnd (acc + v)) w ws'"
    using assms(3) Cons by (intro foldl_rnd_pos pos) simp_all
  then show ?thesis using Cons by simp
qed

text \<open>
  Under a rounding that keeps zero and the sign of positive numbers, the divisor
  \<^verbatim>\<open>distance + epsilon\<close> and the weight are positive.
\<close>

lemma code_weight_pos:
  fixes rnd :: rounding
  assumes pos: "\<And>x. 0 < x \<Longrightarrow> 0 < rnd x" and zero: "rnd 0 = 0"
  shows "0 < rnd (rnd (sqrt (rnd ((rnd (angle - calib_angle))\<^sup>2))) + rnd (1 / 10 ^ 6))"
    and "0 < code_weight rnd angle calib_angle"
proof -
  have nonneg: "0 \<le> rnd x" if "0 \<le> x" for x
    using pos [of x] zero that by (cases "x = 0") (auto simp: less_le)
  have "0 \<le> rnd (sqrt (rnd ((rnd (angle - calib_angle))\<^sup>2)))"
    by (intro nonneg real_sqrt_ge_zero) simp
  moreover have "0 < rnd (1 / 10 ^ 6)" by (intro pos) simp
  ultimately show *:
    "0 < rnd (rnd (sqrt (rnd ((rnd (angle - calib_angle))\<^sup>2))) + rnd (1 / 10 ^ 6))"
    by (intro pos) linarith
  show "0 < code_weight rnd angle calib_angle"
    unfolding code_weight_def using * by (intro pos) simp
qed

text \<open>
  So, on a non-empty list of calibration angles, no division of \<^verbatim>\<open>_interpolate\<close> raises,
  and the value is the rounded quotient of the two rounded sums.
\<close>

lemma interpolate_rounded:
  fixes rnd :: rounding
  assumes pos: "\<And>x. 0 < x \<Longrightarrow> 0 < rnd x" and zero: "rnd 0 = 0"
    and ne: "calibration_angles \<noteq> []"
  shows "interpolate rnd self position angle calibration_coordinates calibration_angles =
    (Inr (rnd (py_sum rnd (map (\<lambda>(w, coord). rnd (w * coord))
                 (zip (map (code_weight rnd angle) calibration_angles) calibration_coordinates))
               / py_sum rnd (map (code_weight rnd angle) calibration_angles))), self)"
proof -
  let ?ds = "map (\<lambda>calib_angle. rnd (sqrt (rnd ((rnd (angle - calib_angle))\<^sup>2))))
               calibration_angles"
  have c: "comprehension (\<lambda>distance. py_truediv rnd 1 (rnd (distance + rnd (1 / 10 ^ 6)))) ?ds
        = Inr (map (\<lambda>distance. rnd (1 / rnd (distance + rnd (1 / 10 ^ 6)))) ?ds)"
  proof (rule comprehension_total)
    fix d assume "d \<in> set ?ds"
    then obtain a where "d = rnd (sqrt (rnd ((rnd (angle - a))\<^sup>2)))" by auto
    then have "rnd (d + rnd (1 / 10 ^ 6)) \<noteq> 0"
      using code_weight_pos(1) [of rnd angle a] pos zero by simp
    then show "py_truediv rnd 1 (rnd (d + rnd (1 / 10 ^ 6)))
        = Inr (rnd (1 / rnd (d + rnd (1 / 10 ^ 6))))"
      by (simp add: py_truediv_def)
  qed
  have w: "map (\<lambda>distance. rnd (1 / rnd (distance + rnd (1 / 10 ^ 6)))) ?ds
         = map (code_weight rnd angle) calibration_angles"
    by (simp add: code_weight_def comp_def)
  have "0 < py_sum rnd (map (code_weight rnd angle) calibration_angles)"
    using ne code_weight_pos(2) [of rnd angle] pos zero by (intro py_sum_pos) auto
  then show ?thesis
    unfolding interpolate_def Let_def c w by (simp add: py_truediv_def)
qed

subsection \<open>Exact arithmetic\<close>

lemma foldl_exact: "foldl (\<lambda>acc v. exact (acc + v)) x xs = x + sum_list xs"
  by (induction xs arbitrary: x) (simp_all add: exact_def)

lemma py_sum_exact: "py_sum exact xs = sum_list xs"
  by (cases xs) (simp_all add: foldl_exact)



subsection \<open>Rounding to doubles\<close>

lemma round_half_even_error: "\<bar>of_int (round_half_even y) - y\<bar> \<le> 1 / 2"
  unfolding round_half_even_def Let_def by (auto simp: abs_le_iff)

lemma round_half_even_ge_floor: "\<lfloor>y\<rfloor> \<le> round_half_even y"
  unfolding round_half_even_def Let_def by auto

text \<open>The scaled number has a significand of 53 bits.\<close>

lemma scaled_range:
  assumes "x \<noteq> 0"
  shows "2 ^ 52 \<le> \<bar>x\<bar> * 2 powr (52 - of_int \<lfloor>log 2 \<bar>x\<bar>\<rfloor>)"
    and "\<bar>x\<bar> * 2 powr (52 - of_int \<lfloor>log 2 \<bar>x\<bar>\<rfloor>) < 2 ^ 53"
proof -
  let ?e = "\<lfloor>log 2 \<bar>x\<bar>\<rfloor>"
  have pos: "0 < \<bar>x\<bar>" using assms by simp
  have "2 powr (of_int ?e) \<le> 2 powr (log 2 \<bar>x\<bar>)"
    by (intro powr_mono) simp_all
  then have lo: "2 powr (of_int ?e) \<le> \<bar>x\<bar>" using pos by simp
  have "log 2 \<bar>x\<bar> < of_int ?e + 1" by linarith
  then have "2 powr (log 2 \<bar>x\<bar>) < 2 powr (of_int ?e + 1)"
    by (intro powr_less_mono) simp_all
  then have hi: "\<bar>x\<bar> < 2 powr (of_int ?e + 1)" using pos by simp
  have "(2::real) powr 52 = 2 powr (of_int ?e) * 2 powr (52 - of_int ?e)"
    by (simp add: powr_add [symmetric])
  also have "\<dots> \<le> \<bar>x\<bar> * 2 powr (52 - of_int ?e)"
    using lo by (intro mult_right_mono) simp_all
  finally show "2 ^ 52 \<le> \<bar>x\<bar> * 2 powr (52 - of_int ?e)" by simp
  have "\<bar>x\<bar> * 2 powr (52 - of_int ?e) < 2 powr (of_int ?e + 1) * 2 powr (52 - of_int ?e)"
    using hi by (intro mult_strict_right_mono) simp_all
  also have "\<dots> = (2::real) powr 53" by (simp add: powr_add [symmetric])
  finally show "\<bar>x\<bar> * 2 powr (52 - of_int ?e) < 2 ^ 53" by simp
qed

lemma binary64_zero: "binary64 0 = 0"
  by (simp add: binary64_def)

lemma binary64_pos:
  assumes "0 < x"
  shows "0 < binary64 x"
proof -
  let ?e = "\<lfloor>log 2 \<bar>x\<bar>\<rfloor>"
  let ?y = "x * 2 powr (52 - of_int ?e)"
  have "2 ^ 52 \<le> ?y" using scaled_range(1) [of x] assms by simp
  then have "(2 ^ 52 :: int) \<le> \<lfloor>?y\<rfloor>" by (simp add: le_floor_iff)
  moreover have "(0::int) < 2 ^ 52" by simp
  ultimately have "0 < round_half_even ?y" using round_half_even_ge_floor [of ?y] by linarith
  then show ?thesis using assms by (simp add: binary64_def Let_def)
qed

text \<open>The relative error of one rounding is at most \<open>2\<^sup>-\<^sup>5\<^sup>3\<close>.\<close>

lemma binary64_error: "\<bar>binary64 x - x\<bar> \<le> \<bar>x\<bar> / 2 ^ 53"
proof (cases "x = 0")
  case True
  then show ?thesis by (simp add: binary64_def)
next
  case False
  let ?e = "\<lfloor>log 2 \<bar>x\<bar>\<rfloor>"
  let ?p = "(2::real) powr (52 - of_int ?e)"
  let ?q = "(2::real) powr (of_int ?e - 52)"
  let ?y = "x * ?p"
  have pq: "?p * ?q = 1" by (simp add: powr_add [symmetric])
  have "binary64 x - x = (of_int (round_half_even ?y) - ?y) * ?q"
    using False pq by (simp add: binary64_def Let_def algebra_simps)
  then have "\<bar>binary64 x - x\<bar> = \<bar>of_int (round_half_even ?y) - ?y\<bar> * ?q"
    by (simp add: abs_mult)
  also have "\<dots> \<le> 1 / 2 * ?q"
    by (intro mult_right_mono round_half_even_error) simp
  also have "\<dots> \<le> (\<bar>?y\<bar> / 2 ^ 53) * ?q"
  proof (intro mult_right_mono)
    have "2 ^ 52 \<le> \<bar>?y\<bar>" using scaled_range(1) [OF False] by (simp add: abs_mult)
    then show "1 / 2 \<le> \<bar>?y\<bar> / 2 ^ 53" by simp
  qed simp
  also have "\<dots> = \<bar>x\<bar> / 2 ^ 53"
  proof -
    have "\<bar>?y\<bar> * ?q = \<bar>x\<bar>" using pq by (simp add: abs_mult mult.assoc)
    then show ?thesis by (simp add: field_simps)
  qed
  finally show ?thesis .
qed

text \<open>
  Rounding a given number: with \<open>k\<close> such that \<open>\<bar>x\<bar> \<cdot> 2\<^sup>k\<close> has 53 bits, the double is the
  rounded integer over \<open>2\<^sup>k\<close>.
\<close>

lemma binary64_eq:
  assumes "2 ^ 52 \<le> \<bar>x\<bar> * 2 ^ k" and "\<bar>x\<bar> * 2 ^ k < 2 ^ 53"
  shows "binary64 x = of_int (round_half_even (x * 2 ^ k)) / 2 ^ k"
proof -
  have nz: "x \<noteq> 0" using assms(1) by auto
  then have pos: "0 < \<bar>x\<bar>" by simp
  have "2 powr (52 - real k) \<le> \<bar>x\<bar>"
  proof -
    have "2 powr (52 - real k) = 2 ^ 52 / 2 ^ k" by (simp add: powr_diff powr_realpow)
    also have "\<dots> \<le> \<bar>x\<bar>" using assms(1) by (simp add: field_simps)
    finally show ?thesis .
  qed
  then have lo: "52 - real k \<le> log 2 \<bar>x\<bar>" using pos by (simp add: le_log_iff)
  have "\<bar>x\<bar> < 2 powr (53 - real k)"
  proof -
    have "\<bar>x\<bar> < 2 ^ 53 / 2 ^ k" using assms(2) by (simp add: field_simps)
    also have "\<dots> = 2 powr (53 - real k)" by (simp add: powr_diff powr_realpow)
    finally show ?thesis .
  qed
  then have hi: "log 2 \<bar>x\<bar> < 53 - real k" using pos by (simp add: log_less_iff)
  have e: "\<lfloor>log 2 \<bar>x\<bar>\<rfloor> = 52 - int k"
    using lo hi by (intro floor_unique) simp_all
  have p: "2 powr (52 - of_int (52 - int k)) = (2::real) ^ k" by (simp add: powr_realpow)
  have q: "2 powr (of_int (52 - int k) - 52) = 1 / (2::real) ^ k"
    by (simp add: powr_minus powr_realpow field_simps)
  show ?thesis using nz by (simp add: binary64_def Let_def e p q del: of_int_diff)
qed

lemma binary64_eq_large:
  assumes "2 ^ 52 \<le> \<bar>x\<bar> / 2 ^ k" and "\<bar>x\<bar> / 2 ^ k < 2 ^ 53"
  shows "binary64 x = of_int (round_half_even (x / 2 ^ k)) * 2 ^ k"
proof -
  have nz: "x \<noteq> 0" using assms(1) by auto
  then have pos: "0 < \<bar>x\<bar>" by simp
  have "2 powr (52 + real k) \<le> \<bar>x\<bar>"
  proof -
    have "2 powr (52 + real k) = 2 ^ 52 * 2 ^ k" by (simp add: powr_add powr_realpow)
    also have "\<dots> \<le> \<bar>x\<bar>" using assms(1) by (simp add: field_simps)
    finally show ?thesis .
  qed
  then have lo: "52 + real k \<le> log 2 \<bar>x\<bar>" using pos by (simp add: le_log_iff)
  have "\<bar>x\<bar> < 2 powr (53 + real k)"
  proof -
    have "\<bar>x\<bar> < 2 ^ 53 * 2 ^ k" using assms(2) by (simp add: field_simps)
    also have "\<dots> = 2 powr (53 + real k)" by (simp add: powr_add powr_realpow)
    finally show ?thesis .
  qed
  then have hi: "log 2 \<bar>x\<bar> < 53 + real k" using pos by (simp add: log_less_iff)
  have e: "\<lfloor>log 2 \<bar>x\<bar>\<rfloor> = 52 + int k"
    using lo hi by (intro floor_unique) simp_all
  have p: "2 powr (52 - of_int (52 + int k)) = 1 / (2::real) ^ k"
    by (simp add: powr_minus powr_realpow field_simps)
  have q: "2 powr (of_int (52 + int k) - 52) = (2::real) ^ k" by (simp add: powr_realpow)
  show ?thesis using nz by (simp add: binary64_def Let_def e p q del: of_int_add)
qed

text \<open>
  A product rounded and then divided by its positive factor, rounded again, is within two
  roundings of the other factor.
\<close>

lemma binary64_quotient_error:
  assumes "0 < w"
  shows "\<bar>binary64 (binary64 (w * c) / w) - c\<bar> \<le> \<bar>c\<bar> * (1 / 2 ^ 52 + 1 / 2 ^ 106)"
proof -
  define u :: real where "u = 1 / 2 ^ 53"
  define n where "n = binary64 (w * c)"
  have "\<bar>n - w * c\<bar> \<le> \<bar>w * c\<bar> * u"
    using binary64_error [of "w * c"] by (simp add: n_def u_def)
  then have "\<bar>n - w * c\<bar> \<le> w * (\<bar>c\<bar> * u)"
    using assms by (simp add: abs_mult)
  moreover have "\<bar>n / w - c\<bar> = \<bar>n - w * c\<bar> / w"
  proof -
    have "n / w - c = (n - w * c) / w" using assms by (simp add: field_simps)
    then show ?thesis using assms by (simp add: abs_divide)
  qed
  ultimately have 1: "\<bar>n / w - c\<bar> \<le> \<bar>c\<bar> * u"
    using assms by (simp add: field_simps)
  then have "\<bar>n / w\<bar> \<le> \<bar>c\<bar> + \<bar>c\<bar> * u" by linarith
  moreover have "0 \<le> u" by (simp add: u_def)
  ultimately have "\<bar>n / w\<bar> * u \<le> (\<bar>c\<bar> + \<bar>c\<bar> * u) * u"
    by (intro mult_right_mono)
  moreover have "\<bar>binary64 (n / w) - n / w\<bar> \<le> \<bar>n / w\<bar> * u"
    using binary64_error [of "n / w"] by (simp add: u_def)
  ultimately have "\<bar>binary64 (n / w) - c\<bar> \<le> (\<bar>c\<bar> + \<bar>c\<bar> * u) * u + \<bar>c\<bar> * u"
    using 1 by linarith
  also have "\<dots> = \<bar>c\<bar> * (1 / 2 ^ 52 + 1 / 2 ^ 106)"
    by (simp add: u_def algebra_simps)
  finally show ?thesis by (simp add: n_def)
qed

text \<open>
  \<^verbatim>\<open>_interpolate(0.0, 2.0, [500.0], [0.0])\<close> in doubles, one operation after the other:
  the subtraction, the square and the square root are exact, the four operations after
  them round. The value is the double next above 500.
\<close>

lemma interpolate_binary64_500:
  "interpolate binary64 self 0 2 [500] [0] = (Inr (500 + 1 / 2 ^ 44), self)"
proof -
  have r1: "binary64 (2 - 0) = 2"
    by (rule trans [OF binary64_eq [where k = 51]]) (simp_all add: round_half_even_def)
  have r2: "binary64 (2\<^sup>2) = 4"
    by (rule trans [OF binary64_eq [where k = 50]]) (simp_all add: round_half_even_def)
  have r3: "binary64 (sqrt 4) = 2"
    by (rule trans [OF binary64_eq [where k = 51]]) (simp_all add: round_half_even_def)
  have r4: "binary64 (1 / 10 ^ 6) = 4722366482869645 / 4722366482869645213696"
    by (rule trans [OF binary64_eq [where k = 72]]) (simp_all add: round_half_even_def)
  have r5: "binary64 (2 + 4722366482869645 / 4722366482869645213696)
      = 2251800939585155 / 1125899906842624"
    by (rule trans [OF binary64_eq [where k = 51]]) (simp_all add: round_half_even_def)
  have r6: "binary64 (1 / (2251800939585155 / 1125899906842624))
      = 140737417986619 / 281474976710656"
    by (rule trans [OF binary64_eq [where k = 54]]) (simp_all add: round_half_even_def)
  have r7: "binary64 ((140737417986619 / 281474976710656) * 500)
      = 1099511078020461 / 4398046511104"
    by (rule trans [OF binary64_eq [where k = 45]]) (simp_all add: round_half_even_def)
  have r8: "binary64 ((1099511078020461 / 4398046511104) / (140737417986619 / 281474976710656))
      = 8796093022208001 / 17592186044416"
    by (rule trans [OF binary64_eq [where k = 44]]) (simp_all add: round_half_even_def)
  have nz: "(140737417986619 / 281474976710656 :: real) \<noteq> 0"
    "(2251800939585155 / 1125899906842624 :: real) \<noteq> 0" by simp_all
  have v: "(8796093022208001 / 17592186044416 :: real) = 500 + 1 / 2 ^ 44" by simp
  have "interpolate binary64 self 0 2 [500] [0]
      = (Inr (8796093022208001 / 17592186044416), self)"
    unfolding interpolate_def Let_def
    by (simp only: list.map r1 r2 r3 r4 r5 comprehension.simps py_truediv_def r6 nz if_False
        sum.case zip_Cons_Cons zip_Nil prod.case py_sum.simps foldl_Nil r7 r8 one_neq_zero
        refl if_True)
  then show ?thesis by (simp only: v)
qed

text \<open>
  \<^verbatim>\<open>_interpolate\<close> in doubles at the query angle \<open>2\<^sup>4\<^sup>0\<close>, on three samples at the angle 0,
  in two orders. Every weight is \<open>2\<^sup>-\<^sup>4\<^sup>0\<close> and every product is exact; the items of the
  numerator are \<open>1 + 2\<^sup>-\<^sup>5\<^sup>2\<close>, \<open>- (2\<^sup>-\<^sup>5\<^sup>2 - 2\<^sup>-\<^sup>1\<^sup>0\<^sup>5)\<close> and \<open>2\<^sup>-\<^sup>5\<^sup>3 - 2\<^sup>-\<^sup>1\<^sup>0\<^sup>6\<close>, and their
  sum is 1 when added in this order and \<open>1 + 2\<^sup>-\<^sup>5\<^sup>2\<close> when added in the opposite order.
\<close>

lemma interpolate_binary64_orders:
  "interpolate binary64 self 0 1099511627776
       [4503599627370497 / 4096, - (9007199254740991 / 36893488147419103232),
        9007199254740991 / 73786976294838206464] [0, 0, 0]
     = (Inr (6004799503160661 / 16384), self)"
  "interpolate binary64 self 0 1099511627776
       [9007199254740991 / 73786976294838206464, - (9007199254740991 / 36893488147419103232),
        4503599627370497 / 4096] [0, 0, 0]
     = (Inr (6004799503160663 / 16384), self)"
proof -
  have r1: "binary64 (1099511627776 - 0) = 1099511627776"
    by (rule trans [OF binary64_eq [where k = 12]]) (simp_all add: round_half_even_def)
  have r2: "binary64 (1099511627776\<^sup>2) = 1208925819614629174706176"
    by (rule trans [OF binary64_eq_large [where k = 28]]) (simp_all add: round_half_even_def)
  have sq: "sqrt 1208925819614629174706176 = 1099511627776" by (rule real_sqrt_unique) simp_all
  have r3: "binary64 (sqrt 1208925819614629174706176) = 1099511627776"
    by (rule trans [OF binary64_eq [where k = 12]]) (simp_all add: round_half_even_def sq)
  have r4: "binary64 (1 / 10 ^ 6) = 4722366482869645 / 4722366482869645213696"
    by (rule trans [OF binary64_eq [where k = 72]]) (simp_all add: round_half_even_def)
  have r5: "binary64 (1099511627776 + 4722366482869645 / 4722366482869645213696) = 1099511627776"
    by (rule trans [OF binary64_eq [where k = 12]]) (simp_all add: round_half_even_def)
  have r6: "binary64 (1 / 1099511627776) = 1 / 1099511627776"
    by (rule trans [OF binary64_eq [where k = 92]]) (simp_all add: round_half_even_def)
  have r7: "binary64 ((1 / 1099511627776) * (4503599627370497 / 4096)) = 4503599627370497 / 4503599627370496"
    by (rule trans [OF binary64_eq [where k = 52]]) (simp_all add: round_half_even_def)
  have r8: "binary64 ((1 / 1099511627776) * (- (9007199254740991 / 36893488147419103232))) = - (9007199254740991 / 40564819207303340847894502572032)"
    by (rule trans [OF binary64_eq [where k = 105]]) (simp_all add: round_half_even_def)
  have r9: "binary64 ((1 / 1099511627776) * (9007199254740991 / 73786976294838206464)) = 9007199254740991 / 81129638414606681695789005144064"
    by (rule trans [OF binary64_eq [where k = 106]]) (simp_all add: round_half_even_def)
  have r10: "binary64 ((4503599627370497 / 4503599627370496) + - (9007199254740991 / 40564819207303340847894502572032)) = 1"
    by (rule trans [OF binary64_eq [where k = 52]]) (simp_all add: round_half_even_def)
  have r11: "binary64 (1 + 9007199254740991 / 81129638414606681695789005144064) = 1"
    by (rule trans [OF binary64_eq [where k = 52]]) (simp_all add: round_half_even_def)
  have r12: "binary64 ((1 / 1099511627776) + 1 / 1099511627776) = 1 / 549755813888"
    by (rule trans [OF binary64_eq [where k = 91]]) (simp_all add: round_half_even_def)
  have r13: "binary64 ((1 / 549755813888) + 1 / 1099511627776) = 3 / 1099511627776"
    by (rule trans [OF binary64_eq [where k = 91]]) (simp_all add: round_half_even_def)
  have r14: "binary64 (1 / (3 / 1099511627776)) = 6004799503160661 / 16384"
    by (rule trans [OF binary64_eq [where k = 14]]) (simp_all add: round_half_even_def)
  have r15: "binary64 ((9007199254740991 / 81129638414606681695789005144064) + - (9007199254740991 / 40564819207303340847894502572032)) = - (9007199254740991 / 81129638414606681695789005144064)"
    by (rule trans [OF binary64_eq [where k = 106]]) (simp_all add: round_half_even_def)
  have r16: "binary64 ((- (9007199254740991 / 81129638414606681695789005144064)) + 4503599627370497 / 4503599627370496) = 4503599627370497 / 4503599627370496"
    by (rule trans [OF binary64_eq [where k = 52]]) (simp_all add: round_half_even_def)
  have r17: "binary64 ((4503599627370497 / 4503599627370496) / (3 / 1099511627776)) = 6004799503160663 / 16384"
    by (rule trans [OF binary64_eq [where k = 14]]) (simp_all add: round_half_even_def)
  have nz: "(1099511627776 :: real) \<noteq> 0"
    "(3 / 1099511627776 :: real) \<noteq> 0" by simp_all
  show "interpolate binary64 self 0 1099511627776
       [4503599627370497 / 4096, - (9007199254740991 / 36893488147419103232),
        9007199254740991 / 73786976294838206464] [0, 0, 0]
     = (Inr (6004799503160661 / 16384), self)"
    unfolding interpolate_def Let_def
    by (simp only: list.map r1 r2 r3 r4 r5 r6 r7 r8 r9 r10 r11 r12 r13 r14 r15 r16 r17 comprehension.simps py_truediv_def nz if_False
        sum.case zip_Cons_Cons zip_Nil prod.case py_sum.simps foldl_Cons foldl_Nil one_neq_zero
        refl if_True)
  show "interpolate binary64 self 0 1099511627776
       [9007199254740991 / 73786976294838206464, - (9007199254740991 / 36893488147419103232),
        4503599627370497 / 4096] [0, 0, 0]
     = (Inr (6004799503160663 / 16384), self)"
    unfolding interpolate_def Let_def
    by (simp only: list.map r1 r2 r3 r4 r5 r6 r7 r8 r9 r10 r11 r12 r13 r14 r15 r16 r17 comprehension.simps py_truediv_def nz if_False
        sum.case zip_Cons_Cons zip_Nil prod.case py_sum.simps foldl_Cons foldl_Nil one_neq_zero
        refl if_True)
qed

lemma three_sample_views:
  "monitor_x_values (calibration_map three_sample_agent) =
     [4503599627370497 / 4096, - (9007199254740991 / 36893488147419103232),
      9007199254740991 / 73786976294838206464]"
  "monitor_y_values (calibration_map three_sample_agent) =
     [4503599627370497 / 4096, - (9007199254740991 / 36893488147419103232),
      9007199254740991 / 73786976294838206464]"
  "theta_values (calibration_map three_sample_agent) = [0, 0, 0]"
  "phi_values (calibration_map three_sample_agent) = [0, 0, 0]"
  "head_x_values (calibration_map three_sample_agent) = [0, 0, 0]"
  "head_y_values (calibration_map three_sample_agent) = [0, 0, 0]"
  by (simp_all add: three_sample_agent_def calibration_step_def InterpolationAgent_init_def
      CalibrationMap_init_def add_calibration_point_def)

lemma three_sample_reversed_views:
  "monitor_x_values (calibration_map three_sample_agent_reversed) =
     [9007199254740991 / 73786976294838206464, - (9007199254740991 / 36893488147419103232),
      4503599627370497 / 4096]"
  "monitor_y_values (calibration_map three_sample_agent_reversed) =
     [9007199254740991 / 73786976294838206464, - (9007199254740991 / 36893488147419103232),
      4503599627370497 / 4096]"
  "theta_values (calibration_map three_sample_agent_reversed) = [0, 0, 0]"
  "phi_values (calibration_map three_sample_agent_reversed) = [0, 0, 0]"
  "head_x_values (calibration_map three_sample_agent_reversed) = [0, 0, 0]"
  "head_y_values (calibration_map three_sample_agent_reversed) = [0, 0, 0]"
  by (simp_all add: three_sample_agent_reversed_def calibration_step_def
      InterpolationAgent_init_def CalibrationMap_init_def add_calibration_point_def)

lemma three_sample_permutation:
  "aligned (calibration_map three_sample_agent)"
  "aligned (calibration_map three_sample_agent_reversed)"
  "mset (samples (calibration_map three_sample_agent))
     = mset (samples (calibration_map three_sample_agent_reversed))"
  by (simp_all add: aligned_def samples_def three_sample_views three_sample_reversed_views)

subsection \<open>Reordering the samples, in exact arithmetic\<close>

lemma sum_list_map_mset: "sum_list (map g zs) = sum_mset (image_mset g (mset zs))"
  by (induction zs) simp_all

lemma interpolate_exact_mset:
  assumes ne: "as \<noteq> []" and len: "length cs = length as"
  shows "interpolate exact self position a cs as =
    (Inr (sum_mset (image_mset (\<lambda>(x, y). code_weight exact a x * y) (mset (zip as cs)))
          / sum_mset (image_mset (\<lambda>(x, y). code_weight exact a x) (mset (zip as cs)))), self)"
proof -
  have "map (\<lambda>(w, coord). exact (w * coord)) (zip (map (code_weight exact a) as) cs)
      = map (\<lambda>(x, y). code_weight exact a x * y) (zip as cs)"
    by (simp add: zip_map1 exact_def case_prod_unfold comp_def)
  then have num: "py_sum exact (map (\<lambda>(w, coord). exact (w * coord))
        (zip (map (code_weight exact a) as) cs))
      = sum_mset (image_mset (\<lambda>(x, y). code_weight exact a x * y) (mset (zip as cs)))"
    by (simp only: py_sum_exact sum_list_map_mset)
  have "map (code_weight exact a) as = map (\<lambda>(x, y). code_weight exact a x) (zip as cs)"
    using len by (intro nth_equalityI) simp_all
  then have den: "py_sum exact (map (code_weight exact a) as)
      = sum_mset (image_mset (\<lambda>(x, y). code_weight exact a x) (mset (zip as cs)))"
    by (simp only: py_sum_exact sum_list_map_mset)
  have step: "interpolate exact self position a cs as =
    (Inr (exact (py_sum exact (map (\<lambda>(w, coord). exact (w * coord))
                 (zip (map (code_weight exact a) as) cs))
               / py_sum exact (map (code_weight exact a) as))), self)"
    using ne by (intro interpolate_rounded) (simp_all add: exact_def)
  show ?thesis
    unfolding step num den by (simp add: exact_def)
qed

text \<open>
  With no rounding, the interpolation depends on the pairs of calibration angle and
  screen coordinate as a multiset only: it is the same for every order of the samples.
\<close>

lemma interpolate_exact_reordered:
  assumes perm: "mset (zip as cs) = mset (zip as' cs')"
    and len: "length cs = length as" "length cs' = length as'"
  shows "interpolate exact self position a cs as = interpolate exact self position a cs' as'"
proof (cases "as = []")
  case True
  then have "zip as' cs' = []" using perm by simp
  then have "as' = []" using len(2) by (cases as'; cases cs') simp_all
  with True show ?thesis by (simp add: interpolate_no_angles)
next
  case False
  then have "zip as cs \<noteq> []" using len(1) by (cases as; cases cs) simp_all
  then have "zip as' cs' \<noteq> []" using perm by (metis mset_zero_iff)
  then have ne': "as' \<noteq> []" by auto
  show ?thesis
    unfolding interpolate_exact_mset [OF False len(1)] interpolate_exact_mset [OF ne' len(2)] perm
    by (rule refl)
qed

lemma fst_interpolate_agent:
  "fst (interpolate rnd s position a cs as) = fst (interpolate rnd s' position a cs as)"
  by (simp add: interpolate_def Let_def split: sum.split)

lemma fst_calculate_point_of_regard:
  "fst (calculate_point_of_regard rnd self head_x head_y theta phi) =
     (case fst (interpolate rnd self head_x theta
                  (monitor_x_values (calibration_map self)) (theta_values (calibration_map self))) of
        Inl e \<Rightarrow> Inl e
      | Inr x_screen \<Rightarrow>
          (case fst (interpolate rnd self head_y phi
                  (monitor_y_values (calibration_map self)) (phi_values (calibration_map self))) of
             Inl e \<Rightarrow> Inl e
           | Inr y_screen \<Rightarrow> Inr (x_screen, y_screen)))"
proof -
  have *: "interpolate rnd s position a cs as = (fst (interpolate rnd s position a cs as), s)"
    for s position a cs as
    using interpolate_agent_unchanged [of rnd s position a cs as]
    by (cases "interpolate rnd s position a cs as") simp
  obtain rx where ix: "interpolate rnd self head_x theta
      (monitor_x_values (calibration_map self)) (theta_values (calibration_map self)) = (rx, self)"
    using * by blast
  obtain ry where iy: "interpolate rnd self head_y phi
      (monitor_y_values (calibration_map self)) (phi_values (calibration_map self)) = (ry, self)"
    using * by blast
  show ?thesis
    unfolding calculate_point_of_regard_def
    by (cases rx; cases ry) (simp_all add: ix iy)
qed

lemma aligned_views:
  assumes "aligned m"
  shows "zip (theta_values m) (monitor_x_values m)
           = map (\<lambda>(mx, my, hx, hy, t, p). (t, mx)) (samples m)"
    and "zip (phi_values m) (monitor_y_values m)
           = map (\<lambda>(mx, my, hx, hy, t, p). (p, my)) (samples m)"
  using assms by (auto intro!: nth_equalityI simp: samples_def aligned_def)

subsection \<open>The square root of a rounded square, in doubles\<close>















subsection \<open>The two-sample agent, in doubles\<close>




subsection \<open>The interpolation as a quotient of two sums\<close>

lemma interpolate_sums:
  fixes rnd :: rounding
  assumes pos: "\<And>x. 0 < x \<Longrightarrow> 0 < rnd x" and zero: "rnd 0 = 0"
  shows "interpolate rnd self position angle cs as =
    (quotient_of_sums rnd (weighted_coordinates rnd angle cs as) (weights rnd angle as), self)"
proof -
  let ?ds = "map (\<lambda>calib_angle. rnd (sqrt (rnd ((rnd (angle - calib_angle))\<^sup>2)))) as"
  have c: "comprehension (\<lambda>distance. py_truediv rnd 1 (rnd (distance + rnd (1 / 10 ^ 6)))) ?ds
        = Inr (map (\<lambda>distance. rnd (1 / rnd (distance + rnd (1 / 10 ^ 6)))) ?ds)"
  proof (rule comprehension_total)
    fix d assume "d \<in> set ?ds"
    then obtain a where "d = rnd (sqrt (rnd ((rnd (angle - a))\<^sup>2)))" by auto
    then have "rnd (d + rnd (1 / 10 ^ 6)) \<noteq> 0"
      using code_weight_pos(1) [of rnd angle a] pos zero by simp
    then show "py_truediv rnd 1 (rnd (d + rnd (1 / 10 ^ 6)))
        = Inr (rnd (1 / rnd (d + rnd (1 / 10 ^ 6))))"
      by (simp add: py_truediv_def)
  qed
  have w: "map (\<lambda>distance. rnd (1 / rnd (distance + rnd (1 / 10 ^ 6)))) ?ds
         = weights rnd angle as"
    by (simp add: weights_def code_weight_def comp_def)
  show ?thesis
    unfolding interpolate_def Let_def c w
    by (simp add: quotient_of_sums_def weighted_coordinates_def)
qed

lemma weights_of_zip:
  "length cs = length as \<Longrightarrow>
   weights rnd a as = map (\<lambda>(a_i, c). code_weight rnd a a_i) (zip as cs)"
  by (intro nth_equalityI) (simp_all add: weights_def)

lemma weighted_coordinates_of_zip:
  "weighted_coordinates rnd a cs as
     = map (\<lambda>(a_i, c). rnd (code_weight rnd a a_i * c)) (zip as cs)"
  by (simp add: weighted_coordinates_def weights_def zip_map1 case_prod_unfold comp_def)

subsection \<open>C1: a point-of-regard query on an empty calibration map\<close>

text \<open>
  C1, as stated, fails. On the agent as constructed (its map holds no sample),
  \<^verbatim>\<open>calculate_point_of_regard\<close> raises \<^verbatim>\<open>ZeroDivisionError\<close>, the raw fault of the
  division \<^verbatim>\<open>numerator / sum(weights)\<close> of the empty sum 0 by the empty sum 0. The
  sources define no \<^verbatim>\<open>EmptyCalibrationError\<close>.
\<close>

theorem empty_map_query_raises_raw_division_fault:
  "fst (calculate_point_of_regard exact InterpolationAgent_init 0 0 0 0) = Inl ZeroDivisionError"
  by (simp add: calculate_point_of_regard_def InterpolationAgent_init_def
      CalibrationMap_init_def interpolate_no_angles)

text \<open>
  C1, amended: for every agent whose calibration map holds zero samples (so that its view
  of the theta values is empty), every rounding and all four arguments,
  \<^verbatim>\<open>calculate_point_of_regard\<close> raises \<^verbatim>\<open>ZeroDivisionError\<close> and leaves the agent as it was.
\<close>

theorem calculate_point_of_regard_empty_map:
  "theta_values (calibration_map self) = [] \<Longrightarrow>
   calculate_point_of_regard rnd self head_x head_y theta phi = (Inl ZeroDivisionError, self)"
  by (simp add: calculate_point_of_regard_def interpolate_no_angles)

text \<open>Witness for C1, amended: the freshly constructed agent, queried at \<open>(1, 2, 3, 4)\<close>.\<close>

theorem calculate_point_of_regard_empty_map_witness:
  "theta_values (calibration_map InterpolationAgent_init) = [] \<and>
   calculate_point_of_regard exact InterpolationAgent_init 1 2 3 4
     = (Inl ZeroDivisionError, InterpolationAgent_init)"
  using calculate_point_of_regard_empty_map [of InterpolationAgent_init exact 1 2 3 4]
  by (simp add: InterpolationAgent_init_def CalibrationMap_init_def)

subsection \<open>C2: the interpolation formula\<close>




subsection \<open>C3: a single calibration step through the engine\<close>

text \<open>
  C3 at a failing input: the engine with a fresh interpolation agent, the screen point
  \<open>(100, 200)\<close> and frame 1, for which the predictor returns \<open>(0, 0, 0.1, 0.2)\<close>.
  \<^verbatim>\<open>run_single_calibration_step\<close> drops the head position and calls
  \<^verbatim>\<open>calibration_step(x, y, theta, phi)\<close>; the call raises \<^verbatim>\<open>TypeError\<close> and the engine,
  with its empty calibration map, is as before: no sample is recorded.
\<close>

theorem run_single_calibration_step_records_nothing:
  "run_single_calibration_step uncalibrated_engine 100 200 1
     = (Inl TypeError, uncalibrated_engine)"
  by (simp add: run_single_calibration_step_def uncalibrated_engine_def
      InterpolationAgent_class_def example_predictor_def)

subsection \<open>C4: a prediction through the engine\<close>

text \<open>
  C4 at a failing input: the engine around the agent with one sample, and frame 1, for
  which the predictor returns \<open>(0, 0, 0.1, 0.2)\<close>. The agent's
  \<^verbatim>\<open>calculate_point_of_regard(0, 0, 0.1, 0.2)\<close> returns \<open>(100, 200)\<close>, but
  \<^verbatim>\<open>predict_gaze_position\<close> calls \<^verbatim>\<open>calculate_point_of_regard(theta, phi)\<close> with two
  arguments and raises \<^verbatim>\<open>TypeError\<close>, which its handler for \<^verbatim>\<open>ZeroDivisionError\<close> does
  not catch.
\<close>

theorem predict_gaze_position_raises_TypeError:
  "fst (predict_gaze_position one_sample_engine 1) = Inl TypeError \<and>
   fst (calculate_point_of_regard exact one_sample_agent 0 0 (1 / 10) (1 / 5)) = Inr (100, 200)"
  by (simp add: predict_gaze_position_def one_sample_engine_def InterpolationAgent_class_def
      example_predictor_def one_sample_agent_def calibration_step_def InterpolationAgent_init_def
      calculate_point_of_regard_def interpolate_def add_calibration_point_def
      CalibrationMap_init_def exact_def py_truediv_def)

subsection \<open>C5: a prediction without calibration\<close>

text \<open>
  C5, as stated, fails. With an agent whose \<^verbatim>\<open>calculate_point_of_regard\<close> raises
  \<^verbatim>\<open>ZeroDivisionError\<close>, \<^verbatim>\<open>predict_gaze_position\<close> on frame 1 prints a line and returns
  the plain pair \<^verbatim>\<open>(None, None)\<close> as its value; no exception reaches the caller.
\<close>

theorem predict_gaze_position_returns_None_None:
  "predict_gaze_position (raising_engine ZeroDivisionError) 1
     = (Inr (None, None), raising_engine ZeroDivisionError, [Calibration_profile_is_empty])"
  by (simp add: predict_gaze_position_def raising_engine_def raising_agent_def
      example_predictor_def)

text \<open>
  C5, amended: whenever the predictor returns and the call
  \<^verbatim>\<open>calculate_point_of_regard(theta, phi)\<close> on the agent raises \<^verbatim>\<open>ZeroDivisionError\<close>
  (which is how an empty calibration map shows in \<^verbatim>\<open>_interpolate\<close>),
  \<^verbatim>\<open>predict_gaze_position\<close> catches it, prints that the calibration profile is empty and
  returns the pair \<^verbatim>\<open>(None, None)\<close> as an ordinary value.
\<close>

theorem predict_gaze_position_catches_ZeroDivisionError:
  assumes "gaze_net self img = Inr (head_x, head_y, theta, phi)"
    and "calculate_point_of_regard_method (cal_agent_class self) (cal_agent self) [theta, phi]
           = (Inl ZeroDivisionError, agent')"
  shows "predict_gaze_position self img
           = (Inr (None, None), self\<lparr>cal_agent := agent'\<rparr>, [Calibration_profile_is_empty])"
  using assms by (simp add: predict_gaze_position_def)

text \<open>Witness for C5, amended: the engine around the raising agent, on frame 2.\<close>

theorem predict_gaze_position_catches_ZeroDivisionError_witness:
  "gaze_net (raising_engine ZeroDivisionError) 2 = Inr (0, 0, 1 / 10, 1 / 5) \<and>
   calculate_point_of_regard_method (cal_agent_class (raising_engine ZeroDivisionError))
       (cal_agent (raising_engine ZeroDivisionError)) [1 / 10, 1 / 5]
     = (Inl ZeroDivisionError, ()) \<and>
   predict_gaze_position (raising_engine ZeroDivisionError) 2
     = (Inr (None, None), (raising_engine ZeroDivisionError)\<lparr>cal_agent := ()\<rparr>,
        [Calibration_profile_is_empty])"
proof -
  have g: "gaze_net (raising_engine ZeroDivisionError) 2 = Inr (0, 0, 1 / 10, 1 / 5)"
    by (simp add: raising_engine_def example_predictor_def)
  have c: "calculate_point_of_regard_method (cal_agent_class (raising_engine ZeroDivisionError))
       (cal_agent (raising_engine ZeroDivisionError)) [1 / 10, 1 / 5]
     = (Inl ZeroDivisionError, ())"
    by (simp add: raising_engine_def raising_agent_def)
  show ?thesis
    using g c predict_gaze_position_catches_ZeroDivisionError [OF g c] by simp
qed

subsection \<open>C6: a batch of calibration steps\<close>

text \<open>
  C6 at a failing input: the engine with a fresh interpolation agent and a batch of three
  valid entries and one whose frame shows no face (frame 0), in third place.
  \<^verbatim>\<open>run_calibration_steps\<close> returns normally and goes through all four entries, printing
  a line for each, but each valid entry fails with \<^verbatim>\<open>TypeError\<close> as well: the batch ends
  with the engine as it was, its calibration map empty, where C6 has three samples.
\<close>

theorem run_calibration_steps_records_nothing:
  "run_calibration_steps uncalibrated_engine
       [(100, 100, 1), (200, 200, 2), (300, 300, 0), (400, 400, 3)]
     = (Inr (), uncalibrated_engine,
        [Calibration_step_failed (100, 100, 1) TypeError,
         Calibration_step_failed (200, 200, 2) TypeError,
         Calibration_step_failed (300, 300, 0) PredictionError,
         Calibration_step_failed (400, 400, 3) TypeError])"
  by (simp add: run_single_calibration_step_def uncalibrated_engine_def
      InterpolationAgent_class_def example_predictor_def)

subsection \<open>C7: a calibration map with one sample\<close>

text \<open>
  C7, as stated, fails in floating-point arithmetic. The agent holds the one sample with
  screen \<open>(500, 500)\<close> at the angles \<open>(0, 0)\<close>; queried at the angles \<open>(2, 2)\<close>, in doubles,
  it returns \<open>500 + 2\<^sup>-\<^sup>4\<^sup>4\<close> (Python prints \<^verbatim>\<open>500.00000000000006\<close>) for each coordinate,
  not 500: the product \<^verbatim>\<open>w * coord\<close> and the quotient by \<^verbatim>\<open>w\<close> are both rounded. Each
  sum here has one item, so the value does not depend on how \<^verbatim>\<open>sum\<close> adds.
\<close>

theorem single_sample_not_exact_in_doubles:
  "calculate_point_of_regard binary64 sample_500_agent 0 0 2 2
     = (Inr (500 + 1 / 2 ^ 44, 500 + 1 / 2 ^ 44), sample_500_agent)"
  by (simp add: calculate_point_of_regard_def sample_500_agent_def calibration_step_def
      InterpolationAgent_init_def CalibrationMap_init_def add_calibration_point_def
      interpolate_binary64_500)

text \<open>
  C7, amended: for one sample with calibration angle \<open>a\<close> and screen coordinate \<open>c\<close>
  and every query angle, the interpolation returns \<open>c\<close> exactly in exact arithmetic; in
  doubles (with no overflow or underflow) it returns a value \<open>r\<close> within two roundings
  of \<open>c\<close>: \<open>\<bar>r - c\<bar> \<le> \<bar>c\<bar> \<cdot> (2\<^sup>-\<^sup>5\<^sup>2 + 2\<^sup>-\<^sup>1\<^sup>0\<^sup>6)\<close>.
\<close>

theorem single_sample_interpolation:
  "interpolate exact self position angle [c] [a] = (Inr c, self) \<and>
   (\<exists>r. interpolate binary64 self position angle [c] [a] = (Inr r, self) \<and>
        \<bar>r - c\<bar> \<le> \<bar>c\<bar> * (1 / 2 ^ 52 + 1 / 2 ^ 106))"
proof
  have "0 < code_weight exact angle a"
    by (rule code_weight_pos(2)) (simp_all add: exact_def)
  moreover have "interpolate exact self position angle [c] [a] =
      (Inr (exact (exact (code_weight exact angle a * c) / code_weight exact angle a)), self)"
    using interpolate_rounded [of exact "[a]" self position angle "[c]"]
    by (simp add: exact_def)
  ultimately show "interpolate exact self position angle [c] [a] = (Inr c, self)"
    by (simp add: exact_def)
next
  let ?w = "code_weight binary64 angle a"
  have w: "0 < ?w"
    by (rule code_weight_pos(2)) (simp_all add: binary64_pos binary64_zero)
  have "interpolate binary64 self position angle [c] [a] =
      (Inr (binary64 (binary64 (?w * c) / ?w)), self)"
    using interpolate_rounded [of binary64 "[a]" self position angle "[c]"]
    by (simp add: binary64_pos binary64_zero)
  then show "\<exists>r. interpolate binary64 self position angle [c] [a] = (Inr r, self) \<and>
        \<bar>r - c\<bar> \<le> \<bar>c\<bar> * (1 / 2 ^ 52 + 1 / 2 ^ 106)"
    using binary64_quotient_error [OF w, of c] by blast
qed

subsection \<open>C8: reordering the calibration samples\<close>

text \<open>
  C8, as stated, fails in floating-point arithmetic. The two agents hold the same three
  samples in opposite orders. Queried at the angles \<open>(2\<^sup>4\<^sup>0, 2\<^sup>4\<^sup>0)\<close>, in doubles, the first
  returns \<open>6004799503160661 / 2\<^sup>1\<^sup>4\<close> for each coordinate (Python prints
  \<^verbatim>\<open>366503875925.3333\<close>) and the second \<open>6004799503160663 / 2\<^sup>1\<^sup>4\<close>
  (\<^verbatim>\<open>366503875925.33344\<close>): \<^verbatim>\<open>sum\<close> rounds its additions in the order of the list. On this
  input the compensated summation of CPython 3.12 and later ends with the same two
  sums, 1 and \<open>1 + 2\<^sup>-\<^sup>5\<^sup>2\<close>, as the plain one.
\<close>

theorem order_changes_result_in_doubles:
  "mset (samples (calibration_map three_sample_agent))
     = mset (samples (calibration_map three_sample_agent_reversed)) \<and>
   calculate_point_of_regard binary64 three_sample_agent 0 0 (2 ^ 40) (2 ^ 40)
     = (Inr (6004799503160661 / 2 ^ 14, 6004799503160661 / 2 ^ 14), three_sample_agent) \<and>
   calculate_point_of_regard binary64 three_sample_agent_reversed 0 0 (2 ^ 40) (2 ^ 40)
     = (Inr (6004799503160663 / 2 ^ 14, 6004799503160663 / 2 ^ 14),
        three_sample_agent_reversed)"
  by (simp add: three_sample_permutation calculate_point_of_regard_def three_sample_views
      three_sample_reversed_views interpolate_binary64_orders)

text \<open>
  C8, amended: for every two agents whose calibration maps are in lock-step and hold the
  same samples in any two orders, and for every query: in exact arithmetic
  \<^verbatim>\<open>calculate_point_of_regard\<close> has the same outcome on both; in doubles (with no overflow
  or underflow, \<^verbatim>\<open>sum\<close> adding from left to right) each coordinate is, on either agent,
  the rounded quotient of \<^verbatim>\<open>sum\<close> of the weighted coordinates by \<^verbatim>\<open>sum\<close> of the weights;
  and under every rounding the two agents hand to \<^verbatim>\<open>sum\<close> the same weights and the same
  weighted coordinates, as multisets. The order in which \<^verbatim>\<open>sum\<close> does its rounded additions
  is all that a reordering of the samples changes.
\<close>

theorem reordering_the_samples:
  assumes "aligned (calibration_map self)" and "aligned (calibration_map self')"
    and "mset (samples (calibration_map self)) = mset (samples (calibration_map self'))"
  shows "fst (calculate_point_of_regard exact self head_x head_y theta phi)
         = fst (calculate_point_of_regard exact self' head_x head_y theta phi)
       \<and> calculate_point_of_regard binary64 self head_x head_y theta phi
         = (case quotient_of_sums binary64
                   (weighted_coordinates binary64 theta
                      (monitor_x_values (calibration_map self)) (theta_values (calibration_map self)))
                   (weights binary64 theta (theta_values (calibration_map self))) of
              Inl e \<Rightarrow> Inl e
            | Inr x_screen \<Rightarrow>
                (case quotient_of_sums binary64
                        (weighted_coordinates binary64 phi
                           (monitor_y_values (calibration_map self)) (phi_values (calibration_map self)))
                        (weights binary64 phi (phi_values (calibration_map self))) of
                   Inl e \<Rightarrow> Inl e
                 | Inr y_screen \<Rightarrow> Inr (x_screen, y_screen)), self)
       \<and> calculate_point_of_regard binary64 self' head_x head_y theta phi
         = (case quotient_of_sums binary64
                   (weighted_coordinates binary64 theta
                      (monitor_x_values (calibration_map self')) (theta_values (calibration_map self')))
                   (weights binary64 theta (theta_values (calibration_map self'))) of
              Inl e \<Rightarrow> Inl e
            | Inr x_screen \<Rightarrow>
                (case quotient_of_sums binary64
                        (weighted_coordinates binary64 phi
                           (monitor_y_values (calibration_map self')) (phi_values (calibration_map self')))
                        (weights binary64 phi (phi_values (calibration_map self'))) of
                   Inl e \<Rightarrow> Inl e
                 | Inr y_screen \<Rightarrow> Inr (x_screen, y_screen)), self')
       \<and> mset (weights rnd theta (theta_values (calibration_map self)))
         = mset (weights rnd theta (theta_values (calibration_map self')))
       \<and> mset (weighted_coordinates rnd theta
                 (monitor_x_values (calibration_map self)) (theta_values (calibration_map self)))
         = mset (weighted_coordinates rnd theta
                 (monitor_x_values (calibration_map self')) (theta_values (calibration_map self')))
       \<and> mset (weights rnd phi (phi_values (calibration_map self)))
         = mset (weights rnd phi (phi_values (calibration_map self')))
       \<and> mset (weighted_coordinates rnd phi
                 (monitor_y_values (calibration_map self)) (phi_values (calibration_map self)))
         = mset (weighted_coordinates rnd phi
                 (monitor_y_values (calibration_map self')) (phi_values (calibration_map self')))"
proof -
  let ?m = "calibration_map self" and ?m' = "calibration_map self'"
  have x: "mset (zip (theta_values ?m) (monitor_x_values ?m))
         = mset (zip (theta_values ?m') (monitor_x_values ?m'))"
    unfolding aligned_views(1) [OF assms(1)] aligned_views(1) [OF assms(2)]
    by (simp only: mset_map assms(3))
  have y: "mset (zip (phi_values ?m) (monitor_y_values ?m))
         = mset (zip (phi_values ?m') (monitor_y_values ?m'))"
    unfolding aligned_views(2) [OF assms(1)] aligned_views(2) [OF assms(2)]
    by (simp only: mset_map assms(3))
  have len: "length (monitor_x_values ?m) = length (theta_values ?m)"
    "length (monitor_x_values ?m') = length (theta_values ?m')"
    "length (monitor_y_values ?m) = length (phi_values ?m)"
    "length (monitor_y_values ?m') = length (phi_values ?m')"
    using assms(1,2) by (simp_all add: aligned_def)
  have ix: "interpolate exact self head_x theta (monitor_x_values ?m) (theta_values ?m)
          = interpolate exact self head_x theta (monitor_x_values ?m') (theta_values ?m')"
    using len by (intro interpolate_exact_reordered x) simp_all
  have iy: "interpolate exact self head_y phi (monitor_y_values ?m) (phi_values ?m)
          = interpolate exact self head_y phi (monitor_y_values ?m') (phi_values ?m')"
    using len by (intro interpolate_exact_reordered y) simp_all
  have 1: "fst (calculate_point_of_regard exact self head_x head_y theta phi)
         = fst (calculate_point_of_regard exact self' head_x head_y theta phi)"
    unfolding fst_calculate_point_of_regard ix iy
    by (simp only: fst_interpolate_agent [of exact self _ _ _ _ self'])
  have s: "interpolate binary64 s position a cs as =
      (quotient_of_sums binary64 (weighted_coordinates binary64 a cs as) (weights binary64 a as), s)"
    for s position a cs as
    by (rule interpolate_sums) (simp_all add: binary64_pos binary64_zero)
  have 2: "calculate_point_of_regard binary64 s head_x head_y theta phi
         = (case quotient_of_sums binary64
                   (weighted_coordinates binary64 theta
                      (monitor_x_values (calibration_map s)) (theta_values (calibration_map s)))
                   (weights binary64 theta (theta_values (calibration_map s))) of
              Inl e \<Rightarrow> Inl e
            | Inr x_screen \<Rightarrow>
                (case quotient_of_sums binary64
                        (weighted_coordinates binary64 phi
                           (monitor_y_values (calibration_map s)) (phi_values (calibration_map s)))
                        (weights binary64 phi (phi_values (calibration_map s))) of
                   Inl e \<Rightarrow> Inl e
                 | Inr y_screen \<Rightarrow> Inr (x_screen, y_screen)), s)" for s
    unfolding calculate_point_of_regard_def s by (simp split: sum.split)
  have wx: "mset (weights rnd theta (theta_values ?m)) = mset (weights rnd theta (theta_values ?m'))"
    unfolding weights_of_zip [OF len(1)] weights_of_zip [OF len(2)] by (simp only: mset_map x)
  have wy: "mset (weights rnd phi (phi_values ?m)) = mset (weights rnd phi (phi_values ?m'))"
    unfolding weights_of_zip [OF len(3)] weights_of_zip [OF len(4)] by (simp only: mset_map y)
  have px: "mset (weighted_coordinates rnd theta (monitor_x_values ?m) (theta_values ?m))
          = mset (weighted_coordinates rnd theta (monitor_x_values ?m') (theta_values ?m'))"
    unfolding weighted_coordinates_of_zip by (simp only: mset_map x)
  have py: "mset (weighted_coordinates rnd phi (monitor_y_values ?m) (phi_values ?m))
          = mset (weighted_coordinates rnd phi (monitor_y_values ?m') (phi_values ?m'))"
    unfolding weighted_coordinates_of_zip by (simp only: mset_map y)
  show ?thesis
    using 1 2 [of self] 2 [of self'] wx px wy py by (intro conjI)
qed

text \<open>
  Witness for C8, amended: the two agents above, queried at the angles \<open>(2\<^sup>4\<^sup>0, 2\<^sup>4\<^sup>0)\<close>, with
  the weights and the weighted coordinates taken in doubles.
\<close>

theorem reordering_the_samples_witness:
  "aligned (calibration_map three_sample_agent) \<and>
   aligned (calibration_map three_sample_agent_reversed) \<and>
   mset (samples (calibration_map three_sample_agent))
     = mset (samples (calibration_map three_sample_agent_reversed)) \<and>
   fst (calculate_point_of_regard exact three_sample_agent 0 0 (2 ^ 40) (2 ^ 40))
     = fst (calculate_point_of_regard exact three_sample_agent_reversed 0 0 (2 ^ 40) (2 ^ 40)) \<and>
   mset (weights binary64 (2 ^ 40) (theta_values (calibration_map three_sample_agent)))
     = mset (weights binary64 (2 ^ 40)
              (theta_values (calibration_map three_sample_agent_reversed))) \<and>
   mset (weighted_coordinates binary64 (2 ^ 40)
           (monitor_x_values (calibration_map three_sample_agent))
           (theta_values (calibration_map three_sample_agent)))
     = mset (weighted_coordinates binary64 (2 ^ 40)
           (monitor_x_values (calibration_map three_sample_agent_reversed))
           (theta_values (calibration_map three_sample_agent_reversed)))"
  using three_sample_permutation
    reordering_the_samples [OF three_sample_permutation, of 0 0 "2 ^ 40" "2 ^ 40" binary64]
  by simp

subsection \<open>C9: the head position does not influence the point of regard\<close>

text \<open>
  C9: for every calibration map (every agent), every rounding and every two head
  positions, \<^verbatim>\<open>calculate_point_of_regard\<close> has the same outcome, value or exception, for
  the same \<open>theta\<close> and \<open>phi\<close>.
\<close>

theorem calculate_point_of_regard_ignores_head_position:
  "calculate_point_of_regard rnd self head_x1 head_y1 theta phi
     = calculate_point_of_regard rnd self head_x2 head_y2 theta phi"
proof -
  have x: "interpolate rnd self head_x1 theta cs as = interpolate rnd self head_x2 theta cs as"
    for cs as
    by (rule interpolate_position_irrelevant)
  have y: "interpolate rnd s head_y1 phi cs as = interpolate rnd s head_y2 phi cs as"
    for s cs as
    by (rule interpolate_position_irrelevant)
  show ?thesis
    unfolding calculate_point_of_regard_def by (simp only: x y)
qed

subsection \<open>C10: a point-of-regard query does not change the agent\<close>

text \<open>
  C10: for every agent, every rounding and every query, the agent after
  \<^verbatim>\<open>calculate_point_of_regard\<close> is the agent before it: the calibration map, with all its
  views, their lengths and their contents, is unchanged, whether the query returns or
  raises.
\<close>

theorem calculate_point_of_regard_is_a_pure_read:
  "snd (calculate_point_of_regard rnd self head_x head_y theta phi) = self"
  unfolding calculate_point_of_regard_def
  by (auto split: prod.split sum.split dest!: interpolate_returns_agent)

end
